theory Spec2Isabelle
  imports Complex_Main "HOL-Library.Word" "HOL-Library.Sublist"
begin

text \<open>
  The terminal server, version 1.1.0: a command validator, an activity logger and the
  handlers of the three tools \<open>execute-command\<close>, \<open>list_directory\<close> and \<open>read_file\<close>.
  The shell, the file system, the clock and the log file are outside the program; they
  are modelled by what the program asks of them and by what they may answer.
\<close>

section \<open>Strings and numbers of the host language\<close>

text \<open>
  A JavaScript string is a sequence of UTF-16 code units: \<open>length\<close>, \<open>includes\<close>,
  \<open>startsWith\<close> and the regular expression of \<open>validateCommand\<close> (which has no
  \<open>u\<close> flag) all work on code units. The literals of the program are ASCII; \<open>js\<close>
  embeds them.
\<close>

type_synonym jsstring = "16 word list"

definition js :: "string \<Rightarrow> jsstring" where
  "js s = map (\<lambda>c. of_nat (of_char c)) s"

text \<open>\<open>s.startsWith(p)\<close> and \<open>s.includes(p)\<close>, by scanning as the built-ins do.\<close>

fun startsWith :: "jsstring \<Rightarrow> jsstring \<Rightarrow> bool" where
  "startsWith s [] = True"
| "startsWith [] (p # ps) = False"
| "startsWith (c # cs) (p # ps) = (c = p \<and> startsWith cs ps)"

fun js_includes :: "jsstring \<Rightarrow> jsstring \<Rightarrow> bool" where
  "js_includes [] p = startsWith [] p"
| "js_includes (c # cs) p = (startsWith (c # cs) p \<or> js_includes cs p)"

text \<open>\<open>xs.join(sep)\<close> on an array of strings.\<close>

fun join :: "jsstring list \<Rightarrow> jsstring \<Rightarrow> jsstring" where
  "join [] sep = []"
| "join [x] sep = x"
| "join (x # y # ys) sep = x @ sep @ join (y # ys) sep"

text \<open>
  A number that passes the \<open>z.number()\<close> schema: a double other than NaN. The finite
  doubles are reals; the two infinities are kept apart. \<open>Math_min\<close> is \<open>Math.min\<close> on
  two such numbers.
\<close>

datatype jsnum = NegInf | Fin real | PosInf

fun jsnum_le :: "jsnum \<Rightarrow> jsnum \<Rightarrow> bool" where
  "jsnum_le NegInf b = True"
| "jsnum_le (Fin x) NegInf = False"
| "jsnum_le (Fin x) (Fin y) = (x \<le> y)"
| "jsnum_le (Fin x) PosInf = True"
| "jsnum_le PosInf PosInf = True"
| "jsnum_le PosInf b = False"

definition Math_min :: "jsnum \<Rightarrow> jsnum \<Rightarrow> jsnum" where
  "Math_min a b = (if jsnum_le a b then a else b)"

section \<open>Regular expressions\<close>

text \<open>
  The fragment of regular expressions that \<open>validateCommand\<close> uses: literals, \<open>.*\<close>,
  sequence and alternation (the capturing group captures nothing that is read).
  \<open>rmatch r s k\<close> matches \<open>r\<close> at the start of \<open>s\<close> and hands the rest to the
  continuation \<open>k\<close>, so \<open>.*\<close> backtracks; \<open>.\<close> matches any code unit but the four line
  terminators. \<open>regex_test\<close> is \<open>RegExp.prototype.test\<close> for a pattern without flags:
  a match may start at any index.
\<close>

datatype regex = Lit jsstring | DotStar | Seq regex regex | Alt regex regex

definition isLineTerminator :: "16 word \<Rightarrow> bool" where
  "isLineTerminator c = (c = 0x0A \<or> c = 0x0D \<or> c = 0x2028 \<or> c = 0x2029)"

fun rmatch :: "regex \<Rightarrow> jsstring \<Rightarrow> (jsstring \<Rightarrow> bool) \<Rightarrow> bool" where
  "rmatch (Lit p) s k = (startsWith s p \<and> k (drop (length p) s))"
| "rmatch DotStar [] k = k []"
| "rmatch DotStar (c # cs) k =
     ((\<not> isLineTerminator c \<and> rmatch DotStar cs k) \<or> k (c # cs))"
| "rmatch (Seq a b) s k = rmatch a s (\<lambda>s'. rmatch b s' k)"
| "rmatch (Alt a b) s k = (rmatch a s k \<or> rmatch b s k)"

fun regex_test :: "regex \<Rightarrow> jsstring \<Rightarrow> bool" where
  "regex_test r [] = rmatch r [] (\<lambda>_. True)"
| "regex_test r (c # cs) = (rmatch r (c # cs) (\<lambda>_. True) \<or> regex_test r cs)"

section \<open>Configuration\<close>

record config =
  blockedCommands :: "jsstring list"
  timeoutMs :: jsnum
  maxOutputSize :: nat
  allowedDirectories :: "jsstring list"
  logFile :: jsstring

definition CONFIG :: config where
  "CONFIG = \<lparr>
     blockedCommands = [js ''rm -rf'', js ''sudo'', js ''wget'', js ''curl -o''],
     timeoutMs = Fin 30000,
     maxOutputSize = 1024 * 1024,
     allowedDirectories = [js ''/Users/tanmay/Documents''],
     logFile = js ''./terminal-mcp.log'' \<rparr>"

section \<open>Command validation\<close>

datatype jserror = Error (message: jsstring)

text \<open>The pattern \<open>/(cp|mv|rm|cat|echo.*>|touch|mkdir|rmdir)/\<close>.\<close>

definition fileOperationPattern :: regex where
  "fileOperationPattern =
     Alt (Lit (js ''cp'')) (Alt (Lit (js ''mv'')) (Alt (Lit (js ''rm'')) (Alt (Lit (js ''cat''))
    (Alt (Seq (Lit (js ''echo'')) (Seq DotStar (Lit (js ''>''))))
    (Alt (Lit (js ''touch'')) (Alt (Lit (js ''mkdir'')) (Lit (js ''rmdir''))))))))"

text \<open>
  \<open>validateCommand\<close> throws at the first blocked pattern the command includes, in the
  order of the configuration; then it looks for an allowed directory anywhere in the
  command, and throws when the command is a file operation without one.
\<close>

definition validateCommand :: "jsstring \<Rightarrow> jserror + bool" where
  "validateCommand command =
     (case find (\<lambda>blockedCmd. js_includes command blockedCmd) (blockedCommands CONFIG) of
        Some blockedCmd \<Rightarrow> Inl (Error (js ''Command contains blocked pattern: '' @ blockedCmd))
      | None \<Rightarrow>
          (let isAllowed = list_ex (\<lambda>dir. js_includes command dir) (allowedDirectories CONFIG);
               isFileOperation = regex_test fileOperationPattern command
           in if isFileOperation \<and> \<not> isAllowed
              then Inl (Error (js ''File operations only allowed in permitted directories''))
              else Inr True))"

section \<open>The world outside the program\<close>

text \<open>
  What the handlers do to their surroundings is recorded in a \<open>world\<close>: every call of
  \<open>fs.appendFile\<close> and the calls among them that succeeded, every \<open>console.error\<close>,
  every call of the promisified \<open>exec\<close> (command, timeout, maxBuffer), and every read
  of the file system. What the surroundings answer is not the program's to decide: an
  \<open>env\<close> gives the clock, \<open>JSON.stringify\<close>, and the outcome of each external call,
  which may depend on everything that happened before it.
\<close>

datatype jsvalue = JString jsstring | JBoolean bool | JNumber nat

type_synonym details = "(string \<times> jsvalue) list"

record dirent =
  name :: jsstring
  isDirectory :: bool

datatype fs_call = Readdir jsstring | ReadFile jsstring

record world =
  appendFile_calls :: "(jsstring \<times> jsstring) list"
  appended :: "(jsstring \<times> jsstring) list"
  console_errors :: "(jsstring \<times> jserror) list"
  exec_calls :: "(jsstring \<times> jsnum \<times> nat) list"
  fs_calls :: "fs_call list"

record env =
  toISOString_now :: "world \<Rightarrow> jsstring"
  JSON_stringify :: "details \<Rightarrow> jsstring"
  appendFile_outcome :: "world \<Rightarrow> jsstring \<Rightarrow> jsstring \<Rightarrow> jserror option"
  exec_outcome :: "world \<Rightarrow> jsstring \<Rightarrow> jsnum \<Rightarrow> nat \<Rightarrow> jserror + (jsstring \<times> jsstring)"
  readdir_outcome :: "world \<Rightarrow> jsstring \<Rightarrow> jserror + dirent list"
  readFile_outcome :: "world \<Rightarrow> jsstring \<Rightarrow> jserror + jsstring"

text \<open>The log sink: what has been appended to the configured log file, in order.\<close>

definition logfile :: "world \<Rightarrow> jsstring list" where
  "logfile w = map snd (filter (\<lambda>(file, data). file = logFile CONFIG) (appended w))"

text \<open>
  An asynchronous function, awaited: it reads and changes the world and either returns a
  value or throws (\<open>Inl\<close>).
\<close>

type_synonym 'a io = "world \<Rightarrow> (jserror + 'a) \<times> world"

definition return_io :: "'a \<Rightarrow> 'a io" where
  "return_io v = (\<lambda>w. (Inr v, w))"

definition throw_io :: "jserror \<Rightarrow> 'a io" where
  "throw_io e = (\<lambda>w. (Inl e, w))"

definition bind_io :: "'a io \<Rightarrow> ('a \<Rightarrow> 'b io) \<Rightarrow> 'b io" where
  "bind_io m f = (\<lambda>w. case m w of (Inl e, w') \<Rightarrow> (Inl e, w') | (Inr v, w') \<Rightarrow> f v w')"

definition try_catch :: "'a io \<Rightarrow> (jserror \<Rightarrow> 'a io) \<Rightarrow> 'a io" where
  "try_catch m h = (\<lambda>w. case m w of (Inl e, w') \<Rightarrow> h e w' | (Inr v, w') \<Rightarrow> (Inr v, w'))"

definition lift_result :: "jserror + 'a \<Rightarrow> 'a io" where
  "lift_result r = (\<lambda>w. (r, w))"

definition fs_appendFile :: "env \<Rightarrow> jsstring \<Rightarrow> jsstring \<Rightarrow> unit io" where
  "fs_appendFile E file data = (\<lambda>w.
     let w' = w\<lparr>appendFile_calls := appendFile_calls w @ [(file, data)]\<rparr>
     in case appendFile_outcome E w file data of
          None \<Rightarrow> (Inr (), w'\<lparr>appended := appended w' @ [(file, data)]\<rparr>)
        | Some error \<Rightarrow> (Inl error, w'))"

definition console_error :: "jsstring \<Rightarrow> jserror \<Rightarrow> unit io" where
  "console_error label error = (\<lambda>w.
     (Inr (), w\<lparr>console_errors := console_errors w @ [(label, error)]\<rparr>))"

definition execPromise :: "env \<Rightarrow> jsstring \<Rightarrow> jsnum \<Rightarrow> nat \<Rightarrow> (jsstring \<times> jsstring) io" where
  "execPromise E command timeout maxBuffer = (\<lambda>w.
     (exec_outcome E w command timeout maxBuffer,
      w\<lparr>exec_calls := exec_calls w @ [(command, timeout, maxBuffer)]\<rparr>))"

definition fs_readdir :: "env \<Rightarrow> jsstring \<Rightarrow> (dirent list) io" where
  "fs_readdir E path = (\<lambda>w.
     (readdir_outcome E w path, w\<lparr>fs_calls := fs_calls w @ [Readdir path]\<rparr>))"

definition fs_readFile :: "env \<Rightarrow> jsstring \<Rightarrow> jsstring io" where
  "fs_readFile E path = (\<lambda>w.
     (readFile_outcome E w path, w\<lparr>fs_calls := fs_calls w @ [ReadFile path]\<rparr>))"

section \<open>The activity logger\<close>

definition logEntry :: "jsstring \<Rightarrow> jsstring \<Rightarrow> jsstring \<Rightarrow> jsstring" where
  "logEntry timestamp action json =
     js ''['' @ timestamp @ js ''] '' @ action @ js '': '' @ json @ js ''\<newline>''"

definition logActivity :: "env \<Rightarrow> jsstring \<Rightarrow> details \<Rightarrow> unit io" where
  "logActivity E action details = (\<lambda>w.
     let timestamp = toISOString_now E w;
         entry = logEntry timestamp action (JSON_stringify E details)
     in try_catch
          (fs_appendFile E (logFile CONFIG) entry)
          (\<lambda>error. console_error (js ''Failed to write to log file:'') error) w)"

section \<open>The request handlers\<close>

record content_item =
  content_type :: jsstring
  content_text :: jsstring

record response =
  content :: "content_item list"

definition text_response :: "jsstring \<Rightarrow> response" where
  "text_response t = \<lparr>content = [\<lparr>content_type = js ''text'', content_text = t\<rparr>]\<rparr>"

text \<open>
  The handler of \<open>execute-command\<close>. A missing \<open>timeout\<close> argument takes the default
  \<open>CONFIG.timeoutMs\<close>. A string is truthy when it is not empty.
\<close>

definition execute_command :: "env \<Rightarrow> jsstring \<Rightarrow> jsnum option \<Rightarrow> response io" where
  "execute_command E command timeout_arg =
     (let timeout = (case timeout_arg of None \<Rightarrow> timeoutMs CONFIG | Some t \<Rightarrow> t) in
      try_catch
        (bind_io (logActivity E (js ''COMMAND_REQUESTED'') [(''command'', JString command)]) (\<lambda>_.
         bind_io (lift_result (validateCommand command)) (\<lambda>_.
         bind_io (execPromise E command (Math_min timeout (timeoutMs CONFIG)) (maxOutputSize CONFIG))
           (\<lambda>(stdout, stderr).
             let result = [];
                 result = (if stdout \<noteq> []
                           then result @ js ''Standard Output:\<newline>'' @ stdout @ js ''\<newline>''
                           else result);
                 result = (if stderr \<noteq> []
                           then result @ js ''Standard Error:\<newline>'' @ stderr @ js ''\<newline>''
                           else result);
                 result = (if result = []
                           then js ''Command executed successfully with no output.''
                           else result)
             in bind_io (logActivity E (js ''COMMAND_EXECUTED'')
                           [(''command'', JString command), (''success'', JBoolean True),
                            (''outputSize'', JNumber (length result))]) (\<lambda>_.
                return_io (text_response result))))))
        (\<lambda>error.
           bind_io (logActivity E (js ''COMMAND_ERROR'')
                      [(''command'', JString command), (''error'', JString (message error))]) (\<lambda>_.
           return_io (text_response (js ''Error executing command: '' @ message error)))))"

text \<open>The handlers of \<open>list_directory\<close> and \<open>read_file\<close>.\<close>

definition list_directory :: "env \<Rightarrow> jsstring \<Rightarrow> response io" where
  "list_directory E path =
     try_catch
       (let isAllowed = list_ex (\<lambda>dir. startsWith path dir) (allowedDirectories CONFIG) in
        if \<not> isAllowed
        then throw_io (Error (js ''Access denied - path outside allowed directories''))
        else bind_io (fs_readdir E path) (\<lambda>items.
          let result = join (map (\<lambda>item.
                   let prefix = (if isDirectory item then js ''[DIR] '' else js ''[FILE] '')
                   in prefix @ name item) items) (js ''\<newline>'')
          in return_io (text_response (if result \<noteq> [] then result else js ''Directory is empty''))))
       (\<lambda>error. return_io (text_response (js ''Error listing directory: '' @ message error)))"

definition read_file :: "env \<Rightarrow> jsstring \<Rightarrow> response io" where
  "read_file E path =
     try_catch
       (let isAllowed = list_ex (\<lambda>dir. startsWith path dir) (allowedDirectories CONFIG) in
        if \<not> isAllowed
        then throw_io (Error (js ''Access denied - path outside allowed directories''))
        else bind_io (fs_readFile E path) (\<lambda>content.
          return_io (text_response content)))
       (\<lambda>error. return_io (text_response (js ''Error reading file: '' @ message error)))"

section \<open>What the specification says, in its own words\<close>

text \<open>
  The response text of a command that completed with standard output \<open>s\<close> and standard
  error \<open>e\<close>, as the specification words it: a section for each stream that is not
  empty, and a fixed message when both are empty.
\<close>

definition spec_output_text :: "jsstring \<Rightarrow> jsstring \<Rightarrow> jsstring" where
  "spec_output_text s e =
     (if s = [] \<and> e = [] then js ''Command executed successfully with no output.''
      else (if s \<noteq> [] then js ''Standard Output:\<newline>'' @ s @ js ''\<newline>'' else [])
         @ (if e \<noteq> [] then js ''Standard Error:\<newline>'' @ e @ js ''\<newline>'' else []))"

text \<open>
  The listing of a directory, as the specification words it: one line per entry, in the
  order of the listing, with a newline between two lines.
\<close>

definition spec_entry_line :: "dirent \<Rightarrow> jsstring" where
  "spec_entry_line item =
     (if isDirectory item then js ''[DIR] '' @ name item else js ''[FILE] '' @ name item)"

definition spec_listing_text :: "dirent list \<Rightarrow> jsstring" where
  "spec_listing_text items =
     (case items of
        [] \<Rightarrow> js ''Directory is empty''
      | item # rest \<Rightarrow>
          spec_entry_line item @ concat (map (\<lambda>i. js ''\<newline>'' @ spec_entry_line i) rest))"

section \<open>Points of a run, and a test bench\<close>

text \<open>
  The world in which \<open>execute-command\<close> validates and runs the command: the one the
  request's log record leaves behind.
\<close>

definition world_at_exec :: "env \<Rightarrow> jsstring \<Rightarrow> world \<Rightarrow> world" where
  "world_at_exec E command w =
     snd (logActivity E (js ''COMMAND_REQUESTED'') [(''command'', JString command)] w)"

text \<open>The timeout that the handler passes to \<open>exec\<close>.\<close>

definition effective_timeout :: "jsnum option \<Rightarrow> jsnum" where
  "effective_timeout timeout_arg =
     Math_min (case timeout_arg of None \<Rightarrow> timeoutMs CONFIG | Some t \<Rightarrow> t) (timeoutMs CONFIG)"

text \<open>
  A fresh world, and surroundings to run the handlers in: a clock that stands still, a
  shell that knows \<open>echo hello\<close> and \<open>true\<close>, a directory with two entries and an empty
  one. In \<open>bench_env\<close> every write to the log succeeds; in \<open>readonly_env\<close> none does.
\<close>

definition world0 :: world where
  "world0 = \<lparr>appendFile_calls = [], appended = [], console_errors = [], exec_calls = [],
     fs_calls = []\<rparr>"

definition bench_env :: env where
  "bench_env = \<lparr>
     toISOString_now = (\<lambda>w. js ''2025-01-01T00:00:00.000Z''),
     JSON_stringify = (\<lambda>d. js ''{}''),
     appendFile_outcome = (\<lambda>w file data. None),
     exec_outcome = (\<lambda>w command timeout maxBuffer.
        if command = js ''echo hello'' then Inr (js ''hello\<newline>'', [])
        else if command = js ''true'' then Inr ([], [])
        else Inl (Error (js ''Command failed''))),
     readdir_outcome = (\<lambda>w path.
        if path = js ''/Users/tanmay/Documents''
        then Inr [\<lparr>name = js ''notes'', isDirectory = True\<rparr>,
                  \<lparr>name = js ''a.txt'', isDirectory = False\<rparr>]
        else if path = js ''/Users/tanmay/Documents/notes'' then Inr []
        else Inl (Error (js ''ENOENT: no such file or directory''))),
     readFile_outcome = (\<lambda>w path.
        if path = js ''/Users/tanmay/Documents/a.txt'' then Inr (js ''abc'')
        else Inl (Error (js ''ENOENT: no such file or directory''))) \<rparr>"

definition readonly_env :: env where
  "readonly_env = bench_env\<lparr>appendFile_outcome :=
     (\<lambda>w file data. Some (Error (js ''EROFS: read-only file system'')))\<rparr>"

text \<open>In \<open>full_disk_env\<close> the first write to the log succeeds and every later one fails.\<close>

definition full_disk_env :: env where
  "full_disk_env = bench_env\<lparr>appendFile_outcome :=
     (\<lambda>w file data. if appendFile_calls w = [] then None
        else Some (Error (js ''ENOSPC: no space left on device'')))\<rparr>"

section \<open>Basic facts\<close>

subsection \<open>Strings and the file-operation pattern\<close>

text \<open>The two scans are the prefix and the contiguous-sublist relations.\<close>

lemma startsWith_prefix: "startsWith s p \<longleftrightarrow> prefix p s"
  by (induction s p rule: startsWith.induct) auto

lemma js_includes_sublist: "js_includes s p \<longleftrightarrow> sublist p s"
  by (induction s) (simp_all add: startsWith_prefix sublist_Cons_right)

text \<open>
  What the pattern of \<open>validateCommand\<close> tests: a match of a literal anywhere is an
  occurrence of the literal, and \<open>echo.*>\<close> matches where \<open>echo\<close> is followed, after
  any code units that are not line terminators, by \<open>>\<close>.
\<close>

lemma rmatch_Lit: "rmatch (Lit p) s k \<longleftrightarrow> (\<exists>r. s = p @ r \<and> k r)"
  by (auto simp: startsWith_prefix prefix_def)

lemma rmatch_DotStar:
  "rmatch DotStar s k \<longleftrightarrow> (\<exists>m r. s = m @ r \<and> (\<forall>c\<in>set m. \<not> isLineTerminator c) \<and> k r)"
proof (induction s)
  case Nil
  then show ?case by simp
next
  case (Cons c cs)
  show ?case
  proof
    assume "rmatch DotStar (c # cs) k"
    then consider "\<not> isLineTerminator c" "rmatch DotStar cs k" | "k (c # cs)"
      by auto
    then show "\<exists>m r. c # cs = m @ r \<and> (\<forall>c\<in>set m. \<not> isLineTerminator c) \<and> k r"
    proof cases
      case 1
      with Cons.IH obtain m r where "cs = m @ r" "\<forall>c\<in>set m. \<not> isLineTerminator c" "k r"
        by blast
      with 1 have "c # cs = (c # m) @ r \<and> (\<forall>x\<in>set (c # m). \<not> isLineTerminator x) \<and> k r"
        by simp
      then show ?thesis by blast
    next
      case 2
      then have "c # cs = [] @ (c # cs) \<and> (\<forall>x\<in>set []. \<not> isLineTerminator x) \<and> k (c # cs)"
        by simp
      then show ?thesis by blast
    qed
  next
    assume "\<exists>m r. c # cs = m @ r \<and> (\<forall>c\<in>set m. \<not> isLineTerminator c) \<and> k r"
    then obtain m r where *: "c # cs = m @ r" "\<forall>c\<in>set m. \<not> isLineTerminator c" "k r"
      by blast
    show "rmatch DotStar (c # cs) k"
    proof (cases m)
      case Nil
      with * have "k (c # cs)" by simp
      then show ?thesis by simp
    next
      case (Cons x m')
      with * have "x = c" "cs = m' @ r" "\<not> isLineTerminator c" "\<forall>c\<in>set m'. \<not> isLineTerminator c"
        by simp_all
      with *(3) Cons.IH show ?thesis
        by auto
    qed
  qed
qed

lemma regex_test_iff: "regex_test r s \<longleftrightarrow> (\<exists>a b. s = a @ b \<and> rmatch r b (\<lambda>_. True))"
proof (induction s)
  case Nil
  then show ?case by simp
next
  case (Cons c cs)
  then show ?case
    by (auto simp: Cons_eq_append_conv)
qed

lemma regex_test_Lit: "regex_test (Lit p) s \<longleftrightarrow> js_includes s p"
  by (auto simp: regex_test_iff startsWith_prefix js_includes_sublist sublist_altdef' suffix_def)

lemma regex_test_Alt: "regex_test (Alt a b) s \<longleftrightarrow> regex_test a s \<or> regex_test b s"
  by (auto simp: regex_test_iff)

lemma regex_test_echo:
  "regex_test (Seq (Lit (js ''echo'')) (Seq DotStar (Lit (js ''>'')))) s \<longleftrightarrow>
     (\<exists>a m b. s = a @ js ''echo'' @ m @ js ''>'' @ b \<and> (\<forall>c\<in>set m. \<not> isLineTerminator c))"
  unfolding regex_test_iff rmatch.simps(4) rmatch_Lit rmatch_DotStar
  by (auto simp: rmatch_DotStar) blast+

lemma isFileOperation_iff:
  "regex_test fileOperationPattern s \<longleftrightarrow>
     js_includes s (js ''cp'') \<or> js_includes s (js ''mv'') \<or> js_includes s (js ''rm'')
     \<or> js_includes s (js ''cat'')
     \<or> (\<exists>a m b. s = a @ js ''echo'' @ m @ js ''>'' @ b \<and> (\<forall>c\<in>set m. \<not> isLineTerminator c))
     \<or> js_includes s (js ''touch'') \<or> js_includes s (js ''mkdir'') \<or> js_includes s (js ''rmdir'')"
  unfolding fileOperationPattern_def regex_test_Alt regex_test_Lit regex_test_echo
  by (rule refl)

subsection \<open>The logger\<close>

text \<open>
  \<open>logActivity\<close> never throws; it calls \<open>fs.appendFile\<close> once, and touches neither the
  shell nor the rest of the file system.
\<close>

lemma logActivity_fst: "fst (logActivity E action d w) = Inr ()"
  by (simp add: logActivity_def try_catch_def fs_appendFile_def console_error_def Let_def
      split: option.splits)

lemma logActivity_exec_calls: "exec_calls (snd (logActivity E action d w)) = exec_calls w"
  by (simp add: logActivity_def try_catch_def fs_appendFile_def console_error_def Let_def
      split: option.splits)

lemma logActivity_fs_calls: "fs_calls (snd (logActivity E action d w)) = fs_calls w"
  by (simp add: logActivity_def try_catch_def fs_appendFile_def console_error_def Let_def
      split: option.splits)

lemma logActivity_appendFile_calls:
  "appendFile_calls (snd (logActivity E action d w)) =
     appendFile_calls w @
       [(logFile CONFIG, logEntry (toISOString_now E w) action (JSON_stringify E d))]"
  by (simp add: logActivity_def try_catch_def fs_appendFile_def console_error_def Let_def
      split: option.splits)

lemma logActivity_appended:
  "appended (snd (logActivity E action d w)) =
     appended w @
       (case appendFile_outcome E w (logFile CONFIG)
               (logEntry (toISOString_now E w) action (JSON_stringify E d)) of
          None \<Rightarrow> [(logFile CONFIG, logEntry (toISOString_now E w) action (JSON_stringify E d))]
        | Some error \<Rightarrow> [])"
  by (simp add: logActivity_def try_catch_def fs_appendFile_def console_error_def Let_def
      split: option.splits)

lemma case_logActivity:
  "(case logActivity E action d w of (Inl e, w') \<Rightarrow> f e w' | (Inr v, w') \<Rightarrow> g v w') =
     g () (snd (logActivity E action d w))"
  using logActivity_fst [of E action d w]
  by (cases "logActivity E action d w") (auto split: sum.splits)

lemma logActivity_logfile:
  "logfile (snd (logActivity E action d w)) =
     logfile w @
       (case appendFile_outcome E w (logFile CONFIG)
               (logEntry (toISOString_now E w) action (JSON_stringify E d)) of
          None \<Rightarrow> [logEntry (toISOString_now E w) action (JSON_stringify E d)]
        | Some error \<Rightarrow> [])"
  by (simp add: logfile_def logActivity_appended split: option.splits)

lemma logActivity_console_errors:
  "console_errors (snd (logActivity E action d w)) =
     console_errors w @
       (case appendFile_outcome E w (logFile CONFIG)
               (logEntry (toISOString_now E w) action (JSON_stringify E d)) of
          None \<Rightarrow> []
        | Some error \<Rightarrow> [(js ''Failed to write to log file:'', error)])"
  by (simp add: logActivity_def try_catch_def fs_appendFile_def console_error_def Let_def
      split: option.splits)

subsection \<open>The three ways a call of execute-command can go\<close>

text \<open>
  The result text is built as the specification describes it. A call is rejected by the
  validator, or the command fails, or it completes; each time the handler returns a
  response and logs a second record.
\<close>

lemma format_refines:
  "(let result = [];
        result = (if stdout \<noteq> []
                  then result @ js ''Standard Output:\<newline>'' @ stdout @ js ''\<newline>''
                  else result);
        result = (if stderr \<noteq> []
                  then result @ js ''Standard Error:\<newline>'' @ stderr @ js ''\<newline>''
                  else result);
        result = (if result = []
                  then js ''Command executed successfully with no output.''
                  else result)
    in f result) = f (spec_output_text stdout stderr)"
  by (simp add: spec_output_text_def Let_def js_def)

lemma execute_command_invalid:
  assumes "validateCommand command = Inl err"
  shows "execute_command E command timeout_arg w =
    (Inr (text_response (js ''Error executing command: '' @ message err)),
      snd (logActivity E (js ''COMMAND_ERROR'')
             [(''command'', JString command), (''error'', JString (message err))]
             (world_at_exec E command w)))"
  using assms unfolding execute_command_def format_refines
  by (simp add: try_catch_def case_logActivity lift_result_def Let_def
      bind_io_def return_io_def world_at_exec_def)

lemma execute_command_failed:
  assumes "validateCommand command = Inr v"
    and "exec_outcome E (world_at_exec E command w) command (effective_timeout timeout_arg)
           (maxOutputSize CONFIG) = Inl err"
  shows "execute_command E command timeout_arg w =
    (Inr (text_response (js ''Error executing command: '' @ message err)),
      snd (logActivity E (js ''COMMAND_ERROR'')
             [(''command'', JString command), (''error'', JString (message err))]
             ((world_at_exec E command w)\<lparr>exec_calls := exec_calls (world_at_exec E command w) @
                [(command, effective_timeout timeout_arg, maxOutputSize CONFIG)]\<rparr>)))"
  using assms unfolding execute_command_def format_refines
  by (simp add: try_catch_def case_logActivity lift_result_def Let_def
      bind_io_def return_io_def world_at_exec_def effective_timeout_def execPromise_def)

lemma execute_command_completed:
  assumes "validateCommand command = Inr v"
    and "exec_outcome E (world_at_exec E command w) command (effective_timeout timeout_arg)
           (maxOutputSize CONFIG) = Inr (stdout, stderr)"
  shows "execute_command E command timeout_arg w =
    (Inr (text_response (spec_output_text stdout stderr)),
      snd (logActivity E (js ''COMMAND_EXECUTED'')
             [(''command'', JString command), (''success'', JBoolean True),
              (''outputSize'', JNumber (length (spec_output_text stdout stderr)))]
             ((world_at_exec E command w)\<lparr>exec_calls := exec_calls (world_at_exec E command w) @
                [(command, effective_timeout timeout_arg, maxOutputSize CONFIG)]\<rparr>)))"
  using assms unfolding execute_command_def format_refines
  by (simp add: try_catch_def case_logActivity lift_result_def Let_def
      bind_io_def return_io_def world_at_exec_def effective_timeout_def execPromise_def)

lemma execute_command_exec_calls:
  "exec_calls (snd (execute_command E command timeout_arg w)) =
     exec_calls w @
       (case validateCommand command of
          Inl err \<Rightarrow> []
        | Inr ok \<Rightarrow> [(command, effective_timeout timeout_arg, maxOutputSize CONFIG)])"
proof (cases "validateCommand command")
  case (Inl err)
  then show ?thesis
    by (simp add: execute_command_invalid logActivity_exec_calls world_at_exec_def)
next
  case (Inr ok)
  show ?thesis
  proof (cases "exec_outcome E (world_at_exec E command w) command
                  (effective_timeout timeout_arg) (maxOutputSize CONFIG)")
    case (Inl err)
    with Inr show ?thesis
      by (simp add: execute_command_failed logActivity_exec_calls world_at_exec_def)
  next
    case r: (Inr out)
    obtain stdout stderr where "out = (stdout, stderr)"
      by (cases out)
    with Inr r show ?thesis
      by (simp add: execute_command_completed logActivity_exec_calls world_at_exec_def)
  qed
qed

lemma execute_command_returns: "\<exists>r. fst (execute_command E command timeout_arg w) = Inr r"
proof (cases "validateCommand command")
  case (Inl err)
  then show ?thesis
    by (simp add: execute_command_invalid)
next
  case (Inr ok)
  show ?thesis
  proof (cases "exec_outcome E (world_at_exec E command w) command
                  (effective_timeout timeout_arg) (maxOutputSize CONFIG)")
    case (Inl err)
    with Inr show ?thesis
      by (simp add: execute_command_failed)
  next
    case r: (Inr out)
    obtain stdout stderr where "out = (stdout, stderr)"
      by (cases out)
    with Inr r show ?thesis
      by (simp add: execute_command_completed)
  qed
qed

lemma validateCommand_plain:
  assumes "\<not> list_ex (\<lambda>blockedCmd. js_includes command blockedCmd) (blockedCommands CONFIG)"
    and "\<not> regex_test fileOperationPattern command"
  shows "validateCommand command = Inr True"
proof -
  from assms(1) have
    "find (\<lambda>blockedCmd. js_includes command blockedCmd) (blockedCommands CONFIG) = None"
    by (simp add: find_None_iff list_ex_iff)
  with assms(2) show ?thesis
    by (simp add: validateCommand_def)
qed

text \<open>
  The world a call leaves behind is the one its second log record leaves behind; that
  record is written in the world of the validation when the command was rejected, and
  after the call of \<open>exec\<close> otherwise.
\<close>

lemma execute_command_second_log:
  "\<exists>action details.
     (action = js ''COMMAND_EXECUTED'' \<or> action = js ''COMMAND_ERROR'')
     \<and> snd (execute_command E command timeout_arg w) =
         snd (logActivity E action details
           (case validateCommand command of
              Inl err \<Rightarrow> world_at_exec E command w
            | Inr ok \<Rightarrow> (world_at_exec E command w)\<lparr>exec_calls :=
                exec_calls (world_at_exec E command w) @
                  [(command, effective_timeout timeout_arg, maxOutputSize CONFIG)]\<rparr>))"
proof (cases "validateCommand command")
  case (Inl err)
  show ?thesis
    unfolding execute_command_invalid [OF Inl] snd_conv Inl sum.case by blast
next
  case (Inr ok)
  show ?thesis
  proof (cases "exec_outcome E (world_at_exec E command w) command
                  (effective_timeout timeout_arg) (maxOutputSize CONFIG)")
    case (Inl err)
    show ?thesis
      unfolding execute_command_failed [OF Inr Inl] snd_conv Inr sum.case by blast
  next
    case r: (Inr out)
    obtain stdout stderr where out: "out = (stdout, stderr)"
      by (cases out)
    show ?thesis
      unfolding execute_command_completed [OF Inr r [unfolded out]] snd_conv Inr sum.case
      by blast
  qed
qed

subsection \<open>The other handlers\<close>

lemma join_Cons: "join (x # xs) sep = x @ concat (map (\<lambda>y. sep @ y) xs)"
  by (induction xs arbitrary: x) simp_all

lemma list_directory_log:
  "appendFile_calls (snd (list_directory E path w)) = appendFile_calls w
   \<and> appended (snd (list_directory E path w)) = appended w
   \<and> console_errors (snd (list_directory E path w)) = console_errors w"
  by (simp add: list_directory_def try_catch_def throw_io_def return_io_def bind_io_def
      fs_readdir_def Let_def split: sum.splits)

lemma read_file_log:
  "appendFile_calls (snd (read_file E path w)) = appendFile_calls w
   \<and> appended (snd (read_file E path w)) = appended w
   \<and> console_errors (snd (read_file E path w)) = console_errors w"
  by (simp add: read_file_def try_catch_def throw_io_def return_io_def bind_io_def
      fs_readFile_def Let_def split: sum.splits)

text \<open>The test bench at \<open>echo hello\<close>.\<close>

lemma bench_echo_hello:
  "validateCommand (js ''echo hello'') = Inr True"
  "exec_outcome bench_env w (js ''echo hello'') t m = Inr (js ''hello\<newline>'', [])"
  "exec_outcome readonly_env w (js ''echo hello'') t m = Inr (js ''hello\<newline>'', [])"
  by (simp_all add: validateCommand_def CONFIG_def fileOperationPattern_def isLineTerminator_def
      js_def bench_env_def readonly_env_def)

section \<open>Rejected commands and paths\<close>

text \<open>
  Claim C1. A command that includes one of the configured blocked patterns is answered
  with a text that starts with \<open>Error executing command: Command contains blocked pattern\<close>,
  whatever the surroundings do and whatever timeout was asked for, and the call adds
  nothing to the calls of \<open>exec\<close>: no subprocess is spawned.
\<close>

theorem blocked_command_rejected:
  assumes "blockedCmd \<in> set (blockedCommands CONFIG)"
    and "js_includes command blockedCmd"
  shows "\<exists>t w'. execute_command E command timeout_arg w = (Inr (text_response t), w')
           \<and> startsWith t (js ''Error executing command: Command contains blocked pattern'')
           \<and> exec_calls w' = exec_calls w"
proof -
  from assms obtain b where
    "find (\<lambda>blockedCmd. js_includes command blockedCmd) (blockedCommands CONFIG) = Some b"
    by (cases "find (\<lambda>blockedCmd. js_includes command blockedCmd) (blockedCommands CONFIG)")
       (auto simp: find_None_iff)
  then have v: "validateCommand command =
      Inl (Error (js ''Command contains blocked pattern: '' @ b))"
    by (simp add: validateCommand_def)
  define w' where "w' = snd (logActivity E (js ''COMMAND_ERROR'')
      [(''command'', JString command),
       (''error'', JString (js ''Command contains blocked pattern: '' @ b))]
      (world_at_exec E command w))"
  have s: "startsWith (js ''Error executing command: '' @ js ''Command contains blocked pattern: '' @ b)
          (js ''Error executing command: Command contains blocked pattern'')"
    by (simp add: js_def)
  have e: "execute_command E command timeout_arg w =
      (Inr (text_response
         (js ''Error executing command: '' @ js ''Command contains blocked pattern: '' @ b)), w')"
    using execute_command_invalid [OF v] by (simp add: w'_def)
  have x: "exec_calls w' = exec_calls w"
    by (simp add: w'_def logActivity_exec_calls world_at_exec_def)
  from e s x show ?thesis by blast
qed

text \<open>The claim at \<open>sudo apt install x\<close>.\<close>

theorem blocked_command_rejected_witness:
  "js ''sudo'' \<in> set (blockedCommands CONFIG)
   \<and> js_includes (js ''sudo apt install x'') (js ''sudo'')
   \<and> (\<exists>t w'. execute_command bench_env (js ''sudo apt install x'') None world0
                 = (Inr (text_response t), w')
           \<and> startsWith t (js ''Error executing command: Command contains blocked pattern'')
           \<and> exec_calls w' = exec_calls world0)"
proof -
  have a: "js ''sudo'' \<in> set (blockedCommands CONFIG)"
    by (simp add: CONFIG_def)
  have b: "js_includes (js ''sudo apt install x'') (js ''sudo'')"
    by (simp add: js_def)
  from blocked_command_rejected [OF a b, of bench_env None world0] a b
  show ?thesis by blast
qed

text \<open>
  Claim C2, amended. The blocked patterns are looked for first, so a file operation
  outside the allowed directories is answered with exactly
  \<open>Error executing command: File operations only allowed in permitted directories\<close>
  when it includes no blocked pattern. Here too nothing is spawned.
\<close>

theorem file_operation_outside_allowed_rejected:
  assumes "regex_test fileOperationPattern command"
    and "\<not> list_ex (\<lambda>dir. js_includes command dir) (allowedDirectories CONFIG)"
    and "\<not> list_ex (\<lambda>blockedCmd. js_includes command blockedCmd) (blockedCommands CONFIG)"
  shows "fst (execute_command E command timeout_arg w) =
           Inr (text_response (js ''Error executing command: File operations only allowed in permitted directories''))
         \<and> exec_calls (snd (execute_command E command timeout_arg w)) = exec_calls w"
proof -
  from assms(3) have
    "find (\<lambda>blockedCmd. js_includes command blockedCmd) (blockedCommands CONFIG) = None"
    by (simp add: find_None_iff list_ex_iff)
  with assms(1,2) have v: "validateCommand command =
      Inl (Error (js ''File operations only allowed in permitted directories''))"
    by (simp add: validateCommand_def)
  show ?thesis
    by (simp add: execute_command_invalid [OF v] logActivity_exec_calls world_at_exec_def js_def)
qed

text \<open>The amended claim at \<open>cat /etc/passwd\<close>.\<close>

theorem file_operation_outside_allowed_rejected_witness:
  "regex_test fileOperationPattern (js ''cat /etc/passwd'')
   \<and> \<not> list_ex (\<lambda>dir. js_includes (js ''cat /etc/passwd'') dir) (allowedDirectories CONFIG)
   \<and> \<not> list_ex (\<lambda>blockedCmd. js_includes (js ''cat /etc/passwd'') blockedCmd) (blockedCommands CONFIG)
   \<and> fst (execute_command bench_env (js ''cat /etc/passwd'') None world0) =
           Inr (text_response (js ''Error executing command: File operations only allowed in permitted directories''))
   \<and> exec_calls (snd (execute_command bench_env (js ''cat /etc/passwd'') None world0)) = exec_calls world0"
proof -
  have a: "regex_test fileOperationPattern (js ''cat /etc/passwd'')"
    by (simp add: fileOperationPattern_def js_def)
  have b: "\<not> list_ex (\<lambda>dir. js_includes (js ''cat /etc/passwd'') dir) (allowedDirectories CONFIG)"
    by (simp add: CONFIG_def js_def)
  have c: "\<not> list_ex (\<lambda>blockedCmd. js_includes (js ''cat /etc/passwd'') blockedCmd) (blockedCommands CONFIG)"
    by (simp add: CONFIG_def js_def)
  from file_operation_outside_allowed_rejected [OF a b c, of bench_env None world0] a b c
  show ?thesis by blast
qed

text \<open>
  Claim C2 as it was stated fails at \<open>rm -rf /tmp\<close>: the command matches the
  file-operation pattern (\<open>rm\<close>) and names no allowed directory, and the answer is
  the blocked-pattern text, since \<open>rm -rf\<close> is on the block list.
\<close>

theorem blocked_file_operation_counterexample:
  "regex_test fileOperationPattern (js ''rm -rf /tmp'')
   \<and> \<not> list_ex (\<lambda>dir. js_includes (js ''rm -rf /tmp'') dir) (allowedDirectories CONFIG)
   \<and> fst (execute_command bench_env (js ''rm -rf /tmp'') None world0) =
        Inr (text_response (js ''Error executing command: Command contains blocked pattern: rm -rf''))
   \<and> fst (execute_command bench_env (js ''rm -rf /tmp'') None world0) \<noteq>
        Inr (text_response (js ''Error executing command: File operations only allowed in permitted directories''))"
proof -
  have a: "regex_test fileOperationPattern (js ''rm -rf /tmp'')"
    by (simp add: fileOperationPattern_def js_def)
  have b: "\<not> list_ex (\<lambda>dir. js_includes (js ''rm -rf /tmp'') dir) (allowedDirectories CONFIG)"
    by (simp add: CONFIG_def js_def)
  have v: "validateCommand (js ''rm -rf /tmp'') =
      Inl (Error (js ''Command contains blocked pattern: '' @ js ''rm -rf''))"
    by (simp add: validateCommand_def CONFIG_def js_def)
  have c: "fst (execute_command bench_env (js ''rm -rf /tmp'') None world0) =
        Inr (text_response (js ''Error executing command: Command contains blocked pattern: rm -rf''))"
    unfolding execute_command_invalid [OF v] by (simp add: js_def)
  have d: "text_response (js ''Error executing command: Command contains blocked pattern: rm -rf'') \<noteq>
        text_response (js ''Error executing command: File operations only allowed in permitted directories'')"
    by (simp add: text_response_def js_def)
  from a b c d show ?thesis by simp
qed

text \<open>
  Claim C3. A path that starts with none of the allowed directories is answered by
  \<open>list_directory\<close> with exactly
  \<open>Error listing directory: Access denied - path outside allowed directories\<close>,
  and the world is left as it was: the directory is never read.
\<close>

theorem list_directory_outside_denied:
  assumes "\<not> list_ex (\<lambda>dir. startsWith path dir) (allowedDirectories CONFIG)"
  shows "list_directory E path w =
           (Inr (text_response (js ''Error listing directory: Access denied - path outside allowed directories'')), w)"
  using assms
  by (simp add: list_directory_def try_catch_def throw_io_def return_io_def js_def)

text \<open>
  The claim at a path that holds the allowed directory without starting with it.
\<close>

theorem list_directory_outside_denied_witness:
  "\<not> list_ex (\<lambda>dir. startsWith (js ''/tmp/Users/tanmay/Documents'') dir) (allowedDirectories CONFIG)
   \<and> list_directory bench_env (js ''/tmp/Users/tanmay/Documents'') world0 =
           (Inr (text_response (js ''Error listing directory: Access denied - path outside allowed directories'')), world0)"
proof -
  have a: "\<not> list_ex (\<lambda>dir. startsWith (js ''/tmp/Users/tanmay/Documents'') dir) (allowedDirectories CONFIG)"
    by (simp add: CONFIG_def js_def)
  from list_directory_outside_denied [OF a, of bench_env world0] a
  show ?thesis by blast
qed

section \<open>Commands that run\<close>

text \<open>
  Claim C4. Whenever the handler calls \<open>exec\<close> (it does so exactly when the command
  passes validation, and then once), the timeout it passes is \<open>Math.min\<close> of the
  requested timeout and the configured 30000 ms: for a finite request \<open>x\<close> it is
  \<open>min x 30000\<close>, it never exceeds the request nor the ceiling, and without a
  requested timeout it is the ceiling itself.
\<close>

theorem effective_timeout_is_min:
  "exec_calls (snd (execute_command E command timeout_arg w)) =
     exec_calls w @
       (case validateCommand command of
          Inl err \<Rightarrow> []
        | Inr ok \<Rightarrow> [(command, effective_timeout timeout_arg, maxOutputSize CONFIG)])
   \<and> effective_timeout (Some t) = Math_min t (Fin 30000)
   \<and> effective_timeout (Some (Fin x)) = Fin (min x 30000)
   \<and> jsnum_le (effective_timeout (Some t)) t
   \<and> jsnum_le (effective_timeout timeout_arg) (Fin 30000)
   \<and> effective_timeout None = Fin 30000"
proof -
  have a: "effective_timeout (Some t) = Math_min t (Fin 30000)" for t
    by (simp add: effective_timeout_def CONFIG_def)
  have b: "effective_timeout (Some (Fin x)) = Fin (min x 30000)"
    by (simp add: a Math_min_def min_def)
  have c: "jsnum_le (Math_min t (Fin 30000)) t"
    by (cases t) (simp_all add: Math_min_def)
  have d: "jsnum_le (Math_min t (Fin 30000)) (Fin 30000)" for t
    by (cases t) (simp_all add: Math_min_def)
  have e: "effective_timeout None = Fin 30000"
    by (simp add: effective_timeout_def CONFIG_def Math_min_def)
  have f: "jsnum_le (effective_timeout timeout_arg) (Fin 30000)"
    by (cases timeout_arg) (simp_all add: a d e)
  from a b c e f show ?thesis
    by (simp add: execute_command_exec_calls)
qed

text \<open>The claim at requests of 5000 ms, of 60000 ms and of no timeout.\<close>

theorem effective_timeout_is_min_witness:
  "exec_calls (snd (execute_command bench_env (js ''echo hello'') (Some (Fin 5000)) world0)) =
     [(js ''echo hello'', Fin 5000, 1048576)]
   \<and> exec_calls (snd (execute_command bench_env (js ''echo hello'') (Some (Fin 60000)) world0)) =
     [(js ''echo hello'', Fin 30000, 1048576)]
   \<and> exec_calls (snd (execute_command bench_env (js ''echo hello'') None world0)) =
     [(js ''echo hello'', Fin 30000, 1048576)]"
proof -
  have v: "validateCommand (js ''echo hello'') = Inr True"
    by (simp add: validateCommand_def CONFIG_def fileOperationPattern_def isLineTerminator_def js_def)
  have w: "exec_calls world0 = []" "maxOutputSize CONFIG = 1048576"
    by (simp_all add: world0_def CONFIG_def)
  from effective_timeout_is_min [of bench_env "js ''echo hello''" "Some (Fin 5000)" world0 "Fin 5000" 5000]
       effective_timeout_is_min [of bench_env "js ''echo hello''" "Some (Fin 60000)" world0 "Fin 60000" 60000]
       effective_timeout_is_min [of bench_env "js ''echo hello''" None world0 "Fin 1" 1]
  show ?thesis
    by (simp add: v w Math_min_def)
qed

text \<open>
  Claim C5. A command that includes no blocked pattern and does not match the
  file-operation pattern passes validation, with no condition on the allowed
  directories, and \<open>exec\<close> is called with it; the response is the formatted output of
  the command, or the error text of a failed execution. For \<open>echo hello\<close>, whose
  standard output is \<open>hello\<close> and a newline, the formatted output is
  \<open>Standard Output:\<close>, \<open>hello\<close> and an empty line.
\<close>

theorem non_file_operation_runs:
  assumes "\<not> list_ex (\<lambda>blockedCmd. js_includes command blockedCmd) (blockedCommands CONFIG)"
    and "\<not> regex_test fileOperationPattern command"
  shows "validateCommand command = Inr True
   \<and> exec_calls (snd (execute_command E command timeout_arg w)) =
       exec_calls w @ [(command, effective_timeout timeout_arg, maxOutputSize CONFIG)]
   \<and> fst (execute_command E command timeout_arg w) =
       Inr (text_response
         (case exec_outcome E (world_at_exec E command w) command
                 (effective_timeout timeout_arg) (maxOutputSize CONFIG) of
            Inl err \<Rightarrow> js ''Error executing command: '' @ message err
          | Inr (stdout, stderr) \<Rightarrow> spec_output_text stdout stderr))
   \<and> spec_output_text (js ''hello\<newline>'') [] = js ''Standard Output:\<newline>hello\<newline>\<newline>''"
proof -
  have v: "validateCommand command = Inr True"
    using assms by (rule validateCommand_plain)
  have x: "exec_calls (snd (execute_command E command timeout_arg w)) =
       exec_calls w @ [(command, effective_timeout timeout_arg, maxOutputSize CONFIG)]"
    by (simp add: execute_command_exec_calls v)
  have r: "fst (execute_command E command timeout_arg w) =
       Inr (text_response
         (case exec_outcome E (world_at_exec E command w) command
                 (effective_timeout timeout_arg) (maxOutputSize CONFIG) of
            Inl err \<Rightarrow> js ''Error executing command: '' @ message err
          | Inr (stdout, stderr) \<Rightarrow> spec_output_text stdout stderr))"
  proof (cases "exec_outcome E (world_at_exec E command w) command
                  (effective_timeout timeout_arg) (maxOutputSize CONFIG)")
    case (Inl err)
    with v show ?thesis
      by (simp add: execute_command_failed)
  next
    case r: (Inr out)
    obtain stdout stderr where "out = (stdout, stderr)"
      by (cases out)
    with v r show ?thesis
      by (simp add: execute_command_completed)
  qed
  have h: "spec_output_text (js ''hello\<newline>'') [] = js ''Standard Output:\<newline>hello\<newline>\<newline>''"
    by (simp add: spec_output_text_def js_def)
  from v x r h show ?thesis by blast
qed

text \<open>
  The claim at \<open>echo hello\<close>, which names no allowed directory, in surroundings
  whose shell prints \<open>hello\<close>.
\<close>

theorem non_file_operation_runs_witness:
  "\<not> list_ex (\<lambda>blockedCmd. js_includes (js ''echo hello'') blockedCmd) (blockedCommands CONFIG)
   \<and> \<not> regex_test fileOperationPattern (js ''echo hello'')
   \<and> \<not> list_ex (\<lambda>dir. js_includes (js ''echo hello'') dir) (allowedDirectories CONFIG)
   \<and> validateCommand (js ''echo hello'') = Inr True
   \<and> exec_calls (snd (execute_command bench_env (js ''echo hello'') None world0)) =
        [(js ''echo hello'', Fin 30000, 1048576)]
   \<and> fst (execute_command bench_env (js ''echo hello'') None world0) =
        Inr (text_response (js ''Standard Output:\<newline>hello\<newline>\<newline>''))"
proof -
  have a: "\<not> list_ex (\<lambda>blockedCmd. js_includes (js ''echo hello'') blockedCmd) (blockedCommands CONFIG)"
    by (simp add: CONFIG_def js_def)
  have b: "\<not> regex_test fileOperationPattern (js ''echo hello'')"
    by (simp add: fileOperationPattern_def isLineTerminator_def js_def)
  have c: "\<not> list_ex (\<lambda>dir. js_includes (js ''echo hello'') dir) (allowedDirectories CONFIG)"
    by (simp add: CONFIG_def js_def)
  have t: "effective_timeout None = Fin 30000" "maxOutputSize CONFIG = 1048576"
    "exec_calls world0 = []"
    by (simp_all add: effective_timeout_def CONFIG_def Math_min_def world0_def)
  have o: "exec_outcome bench_env w (js ''echo hello'') t' m = Inr (js ''hello\<newline>'', [])" for w t' m
    by (simp add: bench_env_def)
  from non_file_operation_runs [OF a b, of bench_env None world0] a b c
  show ?thesis
    by (simp add: t o)
qed

text \<open>
  Claim C8. When a validated command completes with standard output \<open>s\<close> and
  standard error \<open>e\<close>, the response text is the one the specification describes:
  the section of each stream that is not empty, or the fixed message when both are
  empty.
\<close>

theorem completed_command_text:
  assumes "validateCommand command = Inr ok"
    and "exec_outcome E (world_at_exec E command w) command (effective_timeout timeout_arg)
           (maxOutputSize CONFIG) = Inr (s, e)"
  shows "fst (execute_command E command timeout_arg w) =
           Inr (text_response (spec_output_text s e))"
  using assms by (simp add: execute_command_completed)

text \<open>The claim at \<open>true\<close>, which prints nothing.\<close>

theorem completed_command_text_witness:
  "validateCommand (js ''true'') = Inr True
   \<and> exec_outcome bench_env (world_at_exec bench_env (js ''true'') world0) (js ''true'')
        (effective_timeout None) (maxOutputSize CONFIG) = Inr ([], [])
   \<and> fst (execute_command bench_env (js ''true'') None world0) =
        Inr (text_response (js ''Command executed successfully with no output.''))"
proof -
  have v: "validateCommand (js ''true'') = Inr True"
    by (simp add: validateCommand_def CONFIG_def fileOperationPattern_def isLineTerminator_def js_def)
  have o: "exec_outcome bench_env (world_at_exec bench_env (js ''true'') world0) (js ''true'')
        (effective_timeout None) (maxOutputSize CONFIG) = Inr ([], [])"
    by (simp add: bench_env_def js_def)
  have s: "spec_output_text [] [] = js ''Command executed successfully with no output.''"
    by (simp add: spec_output_text_def)
  from completed_command_text [OF v o] v o s
  show ?thesis by simp
qed

section \<open>Directory listings\<close>

text \<open>
  Claim C9. For an allowed path whose listing succeeds, \<open>list_directory\<close> reads the
  directory once and answers with the text the specification describes: a line
  \<open>[DIR] name\<close> or \<open>[FILE] name\<close> per entry, in the order of the listing, with a
  newline between two lines; and exactly \<open>Directory is empty\<close> when there is no entry.
\<close>

theorem directory_listing_text:
  assumes "list_ex (\<lambda>dir. startsWith path dir) (allowedDirectories CONFIG)"
    and "readdir_outcome E w path = Inr items"
  shows "list_directory E path w =
           (Inr (text_response (spec_listing_text items)),
            w\<lparr>fs_calls := fs_calls w @ [Readdir path]\<rparr>)
         \<and> spec_listing_text [] = js ''Directory is empty''"
proof -
  have line: "(let prefix = (if isDirectory item then js ''[DIR] '' else js ''[FILE] '')
               in prefix @ name item) = spec_entry_line item" for item
    by (simp add: spec_entry_line_def)
  have ne: "spec_entry_line item \<noteq> []" for item
    by (simp add: spec_entry_line_def js_def)
  have t: "(if join (map (\<lambda>item. spec_entry_line item) items) (js ''\<newline>'') \<noteq> []
            then join (map (\<lambda>item. spec_entry_line item) items) (js ''\<newline>'')
            else js ''Directory is empty'') = spec_listing_text items"
  proof (cases items)
    case Nil
    then show ?thesis
      by (simp add: spec_listing_text_def)
  next
    case (Cons item rest)
    have "join (map (\<lambda>item. spec_entry_line item) (item # rest)) (js ''\<newline>'') =
        spec_entry_line item @ concat (map (\<lambda>i. js ''\<newline>'' @ spec_entry_line i) rest)"
      by (simp add: join_Cons comp_def)
    with Cons ne [of item] show ?thesis
      by (simp add: spec_listing_text_def)
  qed
  have "list_directory E path w =
           (Inr (text_response (spec_listing_text items)),
            w\<lparr>fs_calls := fs_calls w @ [Readdir path]\<rparr>)"
    using assms unfolding list_directory_def line
    by (simp add: try_catch_def bind_io_def return_io_def fs_readdir_def Let_def t)
  then show ?thesis
    by (simp add: spec_listing_text_def)
qed

text \<open>The claim at a directory of two entries and at an empty one.\<close>

theorem directory_listing_text_witness:
  "list_ex (\<lambda>dir. startsWith (js ''/Users/tanmay/Documents'') dir) (allowedDirectories CONFIG)
   \<and> fst (list_directory bench_env (js ''/Users/tanmay/Documents'') world0) =
        Inr (text_response (js ''[DIR] notes\<newline>[FILE] a.txt''))
   \<and> list_ex (\<lambda>dir. startsWith (js ''/Users/tanmay/Documents/notes'') dir) (allowedDirectories CONFIG)
   \<and> fst (list_directory bench_env (js ''/Users/tanmay/Documents/notes'') world0) =
        Inr (text_response (js ''Directory is empty''))"
proof -
  have a: "list_ex (\<lambda>dir. startsWith (js ''/Users/tanmay/Documents'') dir) (allowedDirectories CONFIG)"
    by (simp add: CONFIG_def js_def)
  have b: "list_ex (\<lambda>dir. startsWith (js ''/Users/tanmay/Documents/notes'') dir) (allowedDirectories CONFIG)"
    by (simp add: CONFIG_def js_def)
  have ra: "readdir_outcome bench_env world0 (js ''/Users/tanmay/Documents'') =
      Inr [\<lparr>name = js ''notes'', isDirectory = True\<rparr>, \<lparr>name = js ''a.txt'', isDirectory = False\<rparr>]"
    by (simp add: bench_env_def)
  have rb: "readdir_outcome bench_env world0 (js ''/Users/tanmay/Documents/notes'') = Inr []"
    by (simp add: bench_env_def js_def)
  have ta: "spec_listing_text
      [\<lparr>name = js ''notes'', isDirectory = True\<rparr>, \<lparr>name = js ''a.txt'', isDirectory = False\<rparr>] =
      js ''[DIR] notes\<newline>[FILE] a.txt''"
    by (simp add: spec_listing_text_def spec_entry_line_def js_def)
  from directory_listing_text [OF a ra] directory_listing_text [OF b rb] a b
  show ?thesis
    by (simp add: ta)
qed

section \<open>Logging\<close>

text \<open>
  Claim C7. \<open>logActivity\<close> returns normally for every action, details, surroundings
  and world. When the write fails, the error goes to \<open>console.error\<close> and nothing is
  appended; and the handler that logs, \<open>execute-command\<close>, always returns a response.
\<close>

theorem log_write_failure_swallowed:
  "fst (logActivity E action d w) = Inr ()
   \<and> (case appendFile_outcome E w (logFile CONFIG)
             (logEntry (toISOString_now E w) action (JSON_stringify E d)) of
        None \<Rightarrow> console_errors (snd (logActivity E action d w)) = console_errors w
      | Some error \<Rightarrow>
          console_errors (snd (logActivity E action d w)) =
            console_errors w @ [(js ''Failed to write to log file:'', error)]
          \<and> appended (snd (logActivity E action d w)) = appended w)
   \<and> (\<exists>r. fst (execute_command E command timeout_arg w) = Inr r)"
proof -
  have "case appendFile_outcome E w (logFile CONFIG)
             (logEntry (toISOString_now E w) action (JSON_stringify E d)) of
        None \<Rightarrow> console_errors (snd (logActivity E action d w)) = console_errors w
      | Some error \<Rightarrow>
          console_errors (snd (logActivity E action d w)) =
            console_errors w @ [(js ''Failed to write to log file:'', error)]
          \<and> appended (snd (logActivity E action d w)) = appended w"
    by (simp add: logActivity_def try_catch_def fs_appendFile_def console_error_def Let_def
        split: option.splits)
  with logActivity_fst [of E action d w] execute_command_returns [of E command timeout_arg w]
  show ?thesis by blast
qed

text \<open>The claim where every write to the log fails.\<close>

theorem log_write_failure_swallowed_witness:
  "fst (logActivity readonly_env (js ''COMMAND_REQUESTED'') [(''command'', JString (js ''true''))] world0) = Inr ()
   \<and> console_errors (snd (logActivity readonly_env (js ''COMMAND_REQUESTED'') [(''command'', JString (js ''true''))] world0)) =
        [(js ''Failed to write to log file:'', Error (js ''EROFS: read-only file system''))]
   \<and> appended (snd (logActivity readonly_env (js ''COMMAND_REQUESTED'') [(''command'', JString (js ''true''))] world0)) = []
   \<and> (\<exists>r. fst (execute_command readonly_env (js ''true'') None world0) = Inr r)"
proof -
  have o: "appendFile_outcome readonly_env w f x = Some (Error (js ''EROFS: read-only file system''))" for w f x
    by (simp add: readonly_env_def bench_env_def)
  have z: "console_errors world0 = []" "appended world0 = []"
    by (simp_all add: world0_def)
  from log_write_failure_swallowed [of readonly_env "js ''COMMAND_REQUESTED''"
      "[(''command'', JString (js ''true''))]" world0 "js ''true''" None]
  show ?thesis
    by (simp add: o z)
qed

text \<open>
  Claim C6, amended. Every call of \<open>execute-command\<close> issues exactly two writes to
  the log sink: a record tagged \<open>COMMAND_REQUESTED\<close>, then one record tagged either
  \<open>COMMAND_EXECUTED\<close> or \<open>COMMAND_ERROR\<close>. Each of the two is appended to the sink
  exactly when its own write succeeds, and is reported to \<open>console.error\<close>, leaving no
  line, exactly when its write fails; so the sink gains both records, in that order, when
  no write fails. A call of \<open>list_directory\<close> or of \<open>read_file\<close> issues no write,
  reports nothing and leaves the sink as it was.
\<close>

theorem log_records_of_a_call:
  "(let requested = logEntry (toISOString_now E w) (js ''COMMAND_REQUESTED'')
                      (JSON_stringify E [(''command'', JString command)]);
        w2 = (case validateCommand command of
                Inl err \<Rightarrow> world_at_exec E command w
              | Inr ok \<Rightarrow> (world_at_exec E command w)\<lparr>exec_calls :=
                  exec_calls (world_at_exec E command w) @
                    [(command, effective_timeout timeout_arg, maxOutputSize CONFIG)]\<rparr>)
    in \<exists>action details.
         (let outcome = logEntry (toISOString_now E w2) action (JSON_stringify E details)
          in (action = js ''COMMAND_EXECUTED'' \<or> action = js ''COMMAND_ERROR'')
           \<and> appendFile_calls (snd (execute_command E command timeout_arg w)) =
               appendFile_calls w @ [(logFile CONFIG, requested), (logFile CONFIG, outcome)]
           \<and> logfile (snd (execute_command E command timeout_arg w)) =
               logfile w
               @ (case appendFile_outcome E w (logFile CONFIG) requested of
                    None \<Rightarrow> [requested] | Some error \<Rightarrow> [])
               @ (case appendFile_outcome E w2 (logFile CONFIG) outcome of
                    None \<Rightarrow> [outcome] | Some error \<Rightarrow> [])
           \<and> console_errors (snd (execute_command E command timeout_arg w)) =
               console_errors w
               @ (case appendFile_outcome E w (logFile CONFIG) requested of
                    None \<Rightarrow> [] | Some error \<Rightarrow> [(js ''Failed to write to log file:'', error)])
               @ (case appendFile_outcome E w2 (logFile CONFIG) outcome of
                    None \<Rightarrow> [] | Some error \<Rightarrow> [(js ''Failed to write to log file:'', error)])
           \<and> ((\<forall>w0 file data. appendFile_outcome E w0 file data = None) \<longrightarrow>
                 logfile (snd (execute_command E command timeout_arg w)) =
                   logfile w @ [requested, outcome])))
   \<and> appendFile_calls (snd (list_directory E path w)) = appendFile_calls w
   \<and> logfile (snd (list_directory E path w)) = logfile w
   \<and> console_errors (snd (list_directory E path w)) = console_errors w
   \<and> appendFile_calls (snd (read_file E path w)) = appendFile_calls w
   \<and> logfile (snd (read_file E path w)) = logfile w
   \<and> console_errors (snd (read_file E path w)) = console_errors w"
proof -
  define w1 where "w1 = world_at_exec E command w"
  define w2 where "w2 = (case validateCommand command of
                Inl err \<Rightarrow> w1
              | Inr ok \<Rightarrow> w1\<lparr>exec_calls :=
                  exec_calls w1 @ [(command, effective_timeout timeout_arg, maxOutputSize CONFIG)]\<rparr>)"
  define requested where "requested = logEntry (toISOString_now E w) (js ''COMMAND_REQUESTED'')
                      (JSON_stringify E [(''command'', JString command)])"
  obtain action details where
    act: "action = js ''COMMAND_EXECUTED'' \<or> action = js ''COMMAND_ERROR''"
    and w': "snd (execute_command E command timeout_arg w) = snd (logActivity E action details w2)"
    using execute_command_second_log [of E command timeout_arg w]
    unfolding w2_def w1_def by blast
  define outcome where
    "outcome = logEntry (toISOString_now E w2) action (JSON_stringify E details)"
  have same: "appendFile_calls w2 = appendFile_calls w1" "logfile w2 = logfile w1"
    "console_errors w2 = console_errors w1"
    by (simp_all add: w2_def logfile_def split: sum.splits)
  have c: "appendFile_calls (snd (execute_command E command timeout_arg w)) =
        appendFile_calls w @ [(logFile CONFIG, requested), (logFile CONFIG, outcome)]"
    by (simp add: w' logActivity_appendFile_calls same w1_def world_at_exec_def
        requested_def outcome_def)
  have s: "logfile (snd (execute_command E command timeout_arg w)) =
        logfile w
        @ (case appendFile_outcome E w (logFile CONFIG) requested of
             None \<Rightarrow> [requested] | Some error \<Rightarrow> [])
        @ (case appendFile_outcome E w2 (logFile CONFIG) outcome of
             None \<Rightarrow> [outcome] | Some error \<Rightarrow> [])"
    by (simp add: w' logActivity_logfile same w1_def world_at_exec_def
        requested_def outcome_def split: option.splits)
  have d: "console_errors (snd (execute_command E command timeout_arg w)) =
        console_errors w
        @ (case appendFile_outcome E w (logFile CONFIG) requested of
             None \<Rightarrow> [] | Some error \<Rightarrow> [(js ''Failed to write to log file:'', error)])
        @ (case appendFile_outcome E w2 (logFile CONFIG) outcome of
             None \<Rightarrow> [] | Some error \<Rightarrow> [(js ''Failed to write to log file:'', error)])"
    by (simp add: w' logActivity_console_errors same w1_def world_at_exec_def
        requested_def outcome_def split: option.splits)
  have a: "(\<forall>w0 file data. appendFile_outcome E w0 file data = None) \<longrightarrow>
        logfile (snd (execute_command E command timeout_arg w)) = logfile w @ [requested, outcome]"
    by (simp add: s)
  have l: "logfile (snd (list_directory E path w)) = logfile w"
    "logfile (snd (read_file E path w)) = logfile w"
    by (simp_all add: logfile_def list_directory_log read_file_log)
  have "\<exists>action details.
         (let outcome = logEntry (toISOString_now E w2) action (JSON_stringify E details)
          in (action = js ''COMMAND_EXECUTED'' \<or> action = js ''COMMAND_ERROR'')
           \<and> appendFile_calls (snd (execute_command E command timeout_arg w)) =
               appendFile_calls w @ [(logFile CONFIG, requested), (logFile CONFIG, outcome)]
           \<and> logfile (snd (execute_command E command timeout_arg w)) =
               logfile w
               @ (case appendFile_outcome E w (logFile CONFIG) requested of
                    None \<Rightarrow> [requested] | Some error \<Rightarrow> [])
               @ (case appendFile_outcome E w2 (logFile CONFIG) outcome of
                    None \<Rightarrow> [outcome] | Some error \<Rightarrow> [])
           \<and> console_errors (snd (execute_command E command timeout_arg w)) =
               console_errors w
               @ (case appendFile_outcome E w (logFile CONFIG) requested of
                    None \<Rightarrow> [] | Some error \<Rightarrow> [(js ''Failed to write to log file:'', error)])
               @ (case appendFile_outcome E w2 (logFile CONFIG) outcome of
                    None \<Rightarrow> [] | Some error \<Rightarrow> [(js ''Failed to write to log file:'', error)])
           \<and> ((\<forall>w0 file data. appendFile_outcome E w0 file data = None) \<longrightarrow>
                 logfile (snd (execute_command E command timeout_arg w)) =
                   logfile w @ [requested, outcome]))"
    unfolding Let_def
    using act c s d a unfolding outcome_def by blast
  with l list_directory_log [of E path w] read_file_log [of E path w]
  show ?thesis
    unfolding Let_def w2_def w1_def requested_def by blast
qed

text \<open>
  The amended claim where every write succeeds, and where only the first one does: the
  sink receives the two records of the call, or the first alone with the failure of the
  second reported; and nothing from the two other handlers.
\<close>

theorem log_records_of_a_call_witness:
  "(\<forall>w0 file data. appendFile_outcome bench_env w0 file data = None)
   \<and> (\<exists>ts action details.
        logfile (snd (execute_command bench_env (js ''echo hello'') None world0)) =
          [logEntry (js ''2025-01-01T00:00:00.000Z'') (js ''COMMAND_REQUESTED'') (js ''{}''),
           logEntry ts action (JSON_stringify bench_env details)]
        \<and> (action = js ''COMMAND_EXECUTED'' \<or> action = js ''COMMAND_ERROR''))
   \<and> console_errors (snd (execute_command bench_env (js ''echo hello'') None world0)) = []
   \<and> logfile (snd (execute_command full_disk_env (js ''echo hello'') None world0)) =
        [logEntry (js ''2025-01-01T00:00:00.000Z'') (js ''COMMAND_REQUESTED'') (js ''{}'')]
   \<and> console_errors (snd (execute_command full_disk_env (js ''echo hello'') None world0)) =
        [(js ''Failed to write to log file:'', Error (js ''ENOSPC: no space left on device''))]
   \<and> logfile (snd (list_directory bench_env (js ''/Users/tanmay/Documents'') world0)) = []
   \<and> logfile (snd (read_file bench_env (js ''/Users/tanmay/Documents/a.txt'') world0)) = []"
proof -
  have a: "appendFile_outcome bench_env w0 f x = None" for w0 f x
    by (simp add: bench_env_def)
  have z: "logfile world0 = []" "console_errors world0 = []" "appendFile_calls world0 = []"
    by (simp_all add: logfile_def world0_def)
  have b: "toISOString_now bench_env w0 = js ''2025-01-01T00:00:00.000Z''"
    "JSON_stringify bench_env d = js ''{}''"
    "toISOString_now full_disk_env w0 = js ''2025-01-01T00:00:00.000Z''"
    "JSON_stringify full_disk_env d = js ''{}''" for w0 d
    by (simp_all add: bench_env_def full_disk_env_def)
  have f: "appendFile_outcome full_disk_env w0 g x =
      (if appendFile_calls w0 = [] then None
       else Some (Error (js ''ENOSPC: no space left on device'')))" for w0 g x
    by (simp add: full_disk_env_def bench_env_def)
  have n: "appendFile_calls (world_at_exec E (js ''echo hello'') world0) \<noteq> []" for E
    by (simp add: world_at_exec_def logActivity_appendFile_calls)
  from log_records_of_a_call [of bench_env world0 "js ''echo hello''" None
      "js ''/Users/tanmay/Documents''"]
  have 1: "(\<exists>ts action details.
        logfile (snd (execute_command bench_env (js ''echo hello'') None world0)) =
          [logEntry (js ''2025-01-01T00:00:00.000Z'') (js ''COMMAND_REQUESTED'') (js ''{}''),
           logEntry ts action (JSON_stringify bench_env details)]
        \<and> (action = js ''COMMAND_EXECUTED'' \<or> action = js ''COMMAND_ERROR''))
     \<and> console_errors (snd (execute_command bench_env (js ''echo hello'') None world0)) = []
     \<and> logfile (snd (list_directory bench_env (js ''/Users/tanmay/Documents'') world0)) = []"
    unfolding Let_def by (simp add: a z b) blast
  from log_records_of_a_call [of bench_env world0 "js ''echo hello''" None
      "js ''/Users/tanmay/Documents/a.txt''"]
  have 2: "logfile (snd (read_file bench_env (js ''/Users/tanmay/Documents/a.txt'') world0)) = []"
    by (simp add: z)
  from log_records_of_a_call [of full_disk_env world0 "js ''echo hello''" None
      "js ''/Users/tanmay/Documents''"]
  have 3: "logfile (snd (execute_command full_disk_env (js ''echo hello'') None world0)) =
        [logEntry (js ''2025-01-01T00:00:00.000Z'') (js ''COMMAND_REQUESTED'') (js ''{}'')]
     \<and> console_errors (snd (execute_command full_disk_env (js ''echo hello'') None world0)) =
        [(js ''Failed to write to log file:'', Error (js ''ENOSPC: no space left on device''))]"
    unfolding Let_def by (simp add: f z b n bench_echo_hello(1)) blast
  from 1 2 3 a show ?thesis by blast
qed

text \<open>
  Claim C6 as it was stated fails where the log cannot be written: \<open>echo hello\<close> runs
  and is answered, and the sink has received no record.
\<close>

theorem failed_log_write_counterexample:
  "fst (execute_command readonly_env (js ''echo hello'') None world0) =
     Inr (text_response (js ''Standard Output:\<newline>hello\<newline>\<newline>''))
   \<and> logfile world0 = []
   \<and> logfile (snd (execute_command readonly_env (js ''echo hello'') None world0)) = []"
proof -
  have o: "appendFile_outcome readonly_env w f x = Some (Error (js ''EROFS: read-only file system''))"
    for w f x
    by (simp add: readonly_env_def bench_env_def)
  have z: "logfile world0 = []"
    by (simp add: logfile_def world0_def)
  have r: "logfile (snd (logActivity readonly_env action d w)) = logfile w" for action d w
    by (simp add: logActivity_logfile o)
  have x: "logfile (w\<lparr>exec_calls := c\<rparr>) = logfile w" for w c
    by (simp add: logfile_def)
  have h: "spec_output_text (js ''hello\<newline>'') [] = js ''Standard Output:\<newline>hello\<newline>\<newline>''"
    by (simp add: spec_output_text_def js_def)
  show ?thesis
    unfolding execute_command_completed [OF bench_echo_hello(1) bench_echo_hello(3)]
    by (simp add: r x z h world_at_exec_def)
qed

text \<open>
  Claim C10. The second record of a call is a \<open>COMMAND_EXECUTED\<close> record exactly when
  the command was validated and completed; its \<open>outputSize\<close> is then the length of the
  response text, headers or fixed message included, which is positive and larger than
  the captured output. In every other case the second record is a \<open>COMMAND_ERROR\<close>
  record.
\<close>

theorem executed_record_output_size:
  "\<exists>ts. case validateCommand command of
      Inl err \<Rightarrow>
        last (appendFile_calls (snd (execute_command E command timeout_arg w))) =
          (logFile CONFIG, logEntry ts (js ''COMMAND_ERROR'')
             (JSON_stringify E [(''command'', JString command), (''error'', JString (message err))]))
    | Inr ok \<Rightarrow>
        (case exec_outcome E (world_at_exec E command w) command (effective_timeout timeout_arg)
                (maxOutputSize CONFIG) of
           Inl err \<Rightarrow>
             last (appendFile_calls (snd (execute_command E command timeout_arg w))) =
               (logFile CONFIG, logEntry ts (js ''COMMAND_ERROR'')
                  (JSON_stringify E [(''command'', JString command), (''error'', JString (message err))]))
         | Inr (s, e) \<Rightarrow>
             fst (execute_command E command timeout_arg w) =
               Inr (text_response (spec_output_text s e))
             \<and> last (appendFile_calls (snd (execute_command E command timeout_arg w))) =
               (logFile CONFIG, logEntry ts (js ''COMMAND_EXECUTED'')
                  (JSON_stringify E [(''command'', JString command), (''success'', JBoolean True),
                     (''outputSize'', JNumber (length (spec_output_text s e)))]))
             \<and> 0 < length (spec_output_text s e)
             \<and> length s + length e < length (spec_output_text s e))"
proof (cases "validateCommand command")
  case (Inl err)
  then show ?thesis
    by (simp add: execute_command_invalid logActivity_appendFile_calls) blast
next
  case (Inr ok)
  show ?thesis
  proof (cases "exec_outcome E (world_at_exec E command w) command
                  (effective_timeout timeout_arg) (maxOutputSize CONFIG)")
    case (Inl err)
    with Inr show ?thesis
      by (simp add: execute_command_failed logActivity_appendFile_calls) blast
  next
    case r: (Inr out)
    obtain s e where out: "out = (s, e)"
      by (cases out)
    have "length s + length e < length (spec_output_text s e)"
      by (simp add: spec_output_text_def js_def)
    moreover have "spec_output_text s e \<noteq> []"
      by (simp add: spec_output_text_def js_def)
    ultimately show ?thesis
      using Inr r out
      by (simp add: execute_command_completed logActivity_appendFile_calls) blast
  qed
qed

text \<open>
  The claim at \<open>true\<close>, which prints nothing: the record carries the 45 code units of
  the fixed message.
\<close>

theorem executed_record_output_size_witness:
  "(\<exists>ts. last (appendFile_calls (snd (execute_command bench_env (js ''true'') None world0))) =
     (js ''./terminal-mcp.log'',
      logEntry ts (js ''COMMAND_EXECUTED'')
        (JSON_stringify bench_env [(''command'', JString (js ''true'')), (''success'', JBoolean True),
           (''outputSize'', JNumber 45)])))
   \<and> fst (execute_command bench_env (js ''true'') None world0) =
       Inr (text_response (js ''Command executed successfully with no output.''))"
proof -
  have v: "validateCommand (js ''true'') = Inr True"
    by (simp add: validateCommand_def CONFIG_def fileOperationPattern_def isLineTerminator_def js_def)
  have o: "exec_outcome bench_env w (js ''true'') t m = Inr ([], [])" for w t m
    by (simp add: bench_env_def js_def)
  have s: "spec_output_text [] [] = js ''Command executed successfully with no output.''"
    "length (js ''Command executed successfully with no output.'') = 45"
    "logFile CONFIG = js ''./terminal-mcp.log''"
    by (simp_all add: spec_output_text_def js_def CONFIG_def)
  from executed_record_output_size [where command = "js ''true''" and E = bench_env
      and timeout_arg = None and w = world0]
  show ?thesis
    by (simp add: v o s)
qed

end
